theory Spec2Isabelle
  imports Main "HOL-Library.AList"
begin

section \<open>Python values\<close>

text \<open>
  The server moves JSON documents around: request envelopes, tool arguments and the
  credential files are all what \<^verbatim>\<open>json.load\<close> returns. A dictionary is an association
  list read with \<open>map_of\<close>. Numbers are integers; no function below computes with them.
\<close>

datatype json =
    JNull
  | JBool bool
  | JNum int
  | JStr string
  | JArr "json list"
  | JObj "(string \<times> json) list"

text \<open>Python's truth test, as used by \<^verbatim>\<open>if not email\<close> and \<^verbatim>\<open>creds.refresh_token\<close>.\<close>

fun truthy :: "json \<Rightarrow> bool" where
  "truthy JNull = False"
| "truthy (JBool b) = b"
| "truthy (JNum n) = (n \<noteq> 0)"
| "truthy (JStr s) = (s \<noteq> [])"
| "truthy (JArr xs) = (xs \<noteq> [])"
| "truthy (JObj kvs) = (kvs \<noteq> [])"

fun py_type_name :: "json \<Rightarrow> string" where
  "py_type_name JNull = ''NoneType''"
| "py_type_name (JBool b) = ''bool''"
| "py_type_name (JNum n) = ''int''"
| "py_type_name (JStr s) = ''str''"
| "py_type_name (JArr xs) = ''list''"
| "py_type_name (JObj kvs) = ''dict''"

text \<open>Exceptions carry the text that \<^verbatim>\<open>str(e)\<close> returns.\<close>

datatype exn =
    AttributeError string
  | ValueError string
  | JSONDecodeError string
  | OtherError string

fun str_exn :: "exn \<Rightarrow> string" where
  "str_exn (AttributeError m) = m"
| "str_exn (ValueError m) = m"
| "str_exn (JSONDecodeError m) = m"
| "str_exn (OtherError m) = m"

definition dict_get :: "(string \<times> json) list \<Rightarrow> string \<Rightarrow> json" where
  "dict_get d k = (case map_of d k of None \<Rightarrow> JNull | Some v \<Rightarrow> v)"

definition dict_get_default :: "(string \<times> json) list \<Rightarrow> string \<Rightarrow> json \<Rightarrow> json" where
  "dict_get_default d k dflt = (case map_of d k of None \<Rightarrow> dflt | Some v \<Rightarrow> v)"

text \<open>\<^verbatim>\<open>v.get(k)\<close> on a value that need not be a dictionary.\<close>

definition py_get :: "json \<Rightarrow> string \<Rightarrow> exn + json" where
  "py_get v k =
     (case v of
        JObj d \<Rightarrow> Inr (dict_get d k)
      | _ \<Rightarrow> Inl (AttributeError ([CHR 0x27] @ py_type_name v @ [CHR 0x27]
                 @ '' object has no attribute '' @ [CHR 0x27] @ ''get'' @ [CHR 0x27])))"

definition py_get_default :: "json \<Rightarrow> string \<Rightarrow> json \<Rightarrow> exn + json" where
  "py_get_default v k dflt =
     (case v of
        JObj d \<Rightarrow> Inr (dict_get_default d k dflt)
      | _ \<Rightarrow> Inl (AttributeError ([CHR 0x27] @ py_type_name v @ [CHR 0x27]
                 @ '' object has no attribute '' @ [CHR 0x27] @ ''get'' @ [CHR 0x27])))"

section \<open>Timestamps\<close>

text \<open>
  The expiry of a credential is a naive \<^verbatim>\<open>datetime\<close>. \<open>valid_datetime\<close> is the range check
  of its constructor; \<open>isoformat\<close> and \<open>fromisoformat\<close> are the two library functions the
  credential file goes through. \<open>fromisoformat\<close> follows the parser for the strings that
  \<open>isoformat\<close> writes (date, one separator, \<^verbatim>\<open>HH[:MM[:SS[.fff[fff]]]]\<close>); a string with a
  UTC offset is not a naive timestamp and is refused here.
\<close>

record datetime =
  year :: nat
  month :: nat
  day :: nat
  hour :: nat
  minute :: nat
  second :: nat
  microsecond :: nat

definition is_leap :: "nat \<Rightarrow> bool" where
  "is_leap y = (y mod 4 = 0 \<and> (y mod 100 \<noteq> 0 \<or> y mod 400 = 0))"

definition days_in_month :: "nat \<Rightarrow> nat \<Rightarrow> nat" where
  "days_in_month y m =
     (if m = 2 then (if is_leap y then 29 else 28)
      else if m = 4 \<or> m = 6 \<or> m = 9 \<or> m = 11 then 30 else 31)"

definition valid_datetime :: "datetime \<Rightarrow> bool" where
  "valid_datetime d =
     (1 \<le> year d \<and> year d \<le> 9999 \<and> 1 \<le> month d \<and> month d \<le> 12
      \<and> 1 \<le> day d \<and> day d \<le> days_in_month (year d) (month d)
      \<and> hour d < 24 \<and> minute d < 60 \<and> second d < 60 \<and> microsecond d < 1000000)"

definition digit_char :: "nat \<Rightarrow> char" where
  "digit_char n = char_of (48 + n)"

definition is_digit :: "char \<Rightarrow> bool" where
  "is_digit c = (48 \<le> (of_char c :: nat) \<and> (of_char c :: nat) \<le> 57)"

definition digit_val :: "char \<Rightarrow> nat" where
  "digit_val c = of_char c - 48"

fun decimal :: "nat \<Rightarrow> string" where
  "decimal n = (if n < 10 then [digit_char n] else decimal (n div 10) @ [digit_char (n mod 10)])"

declare decimal.simps [simp del]

definition zero_pad :: "nat \<Rightarrow> nat \<Rightarrow> string" where
  "zero_pad k n = replicate (k - length (decimal n)) (CHR ''0'') @ decimal n"

definition parse_digits :: "string \<Rightarrow> nat option" where
  "parse_digits s =
     (if s \<noteq> [] \<and> list_all is_digit s
      then Some (foldl (\<lambda>a c. 10 * a + digit_val c) 0 s) else None)"

definition isoformat :: "datetime \<Rightarrow> string" where
  "isoformat d =
     zero_pad 4 (year d) @ ''-'' @ zero_pad 2 (month d) @ ''-'' @ zero_pad 2 (day d)
     @ ''T'' @ zero_pad 2 (hour d) @ '':'' @ zero_pad 2 (minute d) @ '':''
     @ zero_pad 2 (second d)
     @ (if microsecond d \<noteq> 0 then ''.'' @ zero_pad 6 (microsecond d) else [])"

definition slice :: "nat \<Rightarrow> nat \<Rightarrow> string \<Rightarrow> string" where
  "slice i j s = take (j - i) (drop i s)"

definition parse_isoformat_date :: "string \<Rightarrow> (nat \<times> nat \<times> nat) option" where
  "parse_isoformat_date dtstr =
     (case parse_digits (slice 0 4 dtstr) of None \<Rightarrow> None | Some y \<Rightarrow>
      if length (slice 0 4 dtstr) \<noteq> 4 \<or> slice 4 5 dtstr \<noteq> ''-'' then None else
      (case parse_digits (slice 5 7 dtstr) of None \<Rightarrow> None | Some m \<Rightarrow>
       if length (slice 5 7 dtstr) \<noteq> 2 \<or> slice 7 8 dtstr \<noteq> ''-'' then None else
       (case parse_digits (slice 8 10 dtstr) of None \<Rightarrow> None | Some d \<Rightarrow>
        if length (slice 8 10 dtstr) \<noteq> 2 then None else Some (y, m, d))))"

definition two_digits :: "string \<Rightarrow> nat \<Rightarrow> nat option" where
  "two_digits tstr pos =
     (if length tstr - pos < 2 then None else parse_digits (slice pos (pos + 2) tstr))"

definition parse_fraction :: "string \<Rightarrow> nat option" where
  "parse_fraction f =
     (if length f = 6 then parse_digits f
      else if length f = 3 then map_option (\<lambda>n. n * 1000) (parse_digits f)
      else None)"

definition parse_hh_mm_ss_ff :: "string \<Rightarrow> (nat \<times> nat \<times> nat \<times> nat) option" where
  "parse_hh_mm_ss_ff tstr =
     (case two_digits tstr 0 of None \<Rightarrow> None | Some hh \<Rightarrow>
      if slice 2 3 tstr = [] then Some (hh, 0, 0, 0)
      else if slice 2 3 tstr \<noteq> '':'' then None else
      (case two_digits tstr 3 of None \<Rightarrow> None | Some mm \<Rightarrow>
       if slice 5 6 tstr = [] then Some (hh, mm, 0, 0)
       else if slice 5 6 tstr \<noteq> '':'' then None else
       (case two_digits tstr 6 of None \<Rightarrow> None | Some ss \<Rightarrow>
        if 8 < length tstr then
          (if slice 8 9 tstr \<noteq> ''.'' then None
           else (case parse_fraction (drop 9 tstr) of None \<Rightarrow> None
                 | Some us \<Rightarrow> Some (hh, mm, ss, us)))
        else Some (hh, mm, ss, 0))))"

definition fromisoformat :: "string \<Rightarrow> datetime option" where
  "fromisoformat date_string =
     (case parse_isoformat_date (slice 0 10 date_string) of None \<Rightarrow> None
      | Some (y, m, d) \<Rightarrow>
        (case (if drop 11 date_string = [] then Some (0, 0, 0, 0)
               else parse_hh_mm_ss_ff (drop 11 date_string)) of None \<Rightarrow> None
         | Some (hh, mm, ss, us) \<Rightarrow>
           (let dt = \<lparr>year = y, month = m, day = d, hour = hh, minute = mm,
                      second = ss, microsecond = us\<rparr>
            in if valid_datetime dt then Some dt else None)))"

text \<open>The proleptic Gregorian ordinal of the library, and the instant in microseconds.\<close>

definition days_before_year :: "nat \<Rightarrow> nat" where
  "days_before_year y = (y - 1) * 365 + (y - 1) div 4 - (y - 1) div 100 + (y - 1) div 400"

definition days_before_month :: "nat \<Rightarrow> nat \<Rightarrow> nat" where
  "days_before_month y m =
     (if m \<le> 1 then 0 else if m = 2 then 31 else if m = 3 then 59 else if m = 4 then 90
      else if m = 5 then 120 else if m = 6 then 151 else if m = 7 then 181
      else if m = 8 then 212 else if m = 9 then 243 else if m = 10 then 273
      else if m = 11 then 304 else 334)
     + (if 2 < m \<and> is_leap y then 1 else 0)"

definition toordinal :: "datetime \<Rightarrow> nat" where
  "toordinal d = days_before_year (year d) + days_before_month (year d) (month d) + day d"

definition instant :: "datetime \<Rightarrow> nat" where
  "instant d =
     (((toordinal d * 24 + hour d) * 60 + minute d) * 60 + second d) * 1000000
     + microsecond d"

section \<open>Credential records and the token directory\<close>

text \<open>
  \<^verbatim>\<open>Credentials\<close> keeps whatever it is given, so the six fields that
  \<^verbatim>\<open>_load_tokens\<close> passes to it hold JSON values (\<open>JNull\<close> is \<^verbatim>\<open>None\<close>); the expiry is
  a timestamp or absent.
\<close>

record credentials =
  token :: json
  refresh_token :: json
  token_uri :: json
  client_id :: json
  client_secret :: json
  scopes :: json
  expiry :: "datetime option"

text \<open>
  One file per account under \<^verbatim>\<open>config/tokens\<close>, named by the email address. A file
  holds a JSON document or text that \<^verbatim>\<open>json.load\<close> rejects. The directory is an
  association list, in the order a directory listing returns.
\<close>

datatype token_file = Json_text json | Other_text

type_synonym store = "(string \<times> token_file) list"

text \<open>The dictionary that \<^verbatim>\<open>_save_tokens\<close> dumps.\<close>

definition token_data :: "credentials \<Rightarrow> json" where
  "token_data creds =
     JObj [(''token'', token creds),
           (''refresh_token'', refresh_token creds),
           (''token_uri'', token_uri creds),
           (''client_id'', client_id creds),
           (''client_secret'', client_secret creds),
           (''scopes'', scopes creds),
           (''expiry'', (case expiry creds of Some t \<Rightarrow> JStr (isoformat t) | None \<Rightarrow> JNull))]"

section \<open>The world outside the process\<close>

text \<open>
  What the code asks of its collaborators is a parameter of the model: the clock and the
  early-expiry margin of the credentials library, the token endpoint (\<^verbatim>\<open>creds.refresh\<close>,
  \<^verbatim>\<open>flow.fetch_token\<close>), the userinfo endpoint, \<^verbatim>\<open>build\<close>, the authorization URL
  builder, \<^verbatim>\<open>uuid.uuid4\<close> (the draws of one run, numbered), the bodies of the
  capability operations, \<^verbatim>\<open>json.loads\<close>, \<^verbatim>\<open>repr\<close> of containers and the faults of
  the file system. \<open>Inl\<close> is a raised exception, with its message.
\<close>

datatype handle = Handle string string credentials

datatype tool_result = Content string

text \<open>
  The operating system may refuse an operation on the token directory; \<open>os_error\<close> says
  which, with the message of the \<^verbatim>\<open>OSError\<close> raised.
\<close>

datatype fs_op = Fs_read string | Fs_write string | Fs_unlink string | Fs_glob

record env =
  utcnow :: datetime
  skew :: nat
  refresh_grant :: "credentials \<Rightarrow> string + credentials"
  build_error :: "string \<Rightarrow> string \<Rightarrow> string option"
  fetch_token :: "string \<Rightarrow> string + credentials"
  userinfo_email :: "credentials \<Rightarrow> string + string option"
  authorization_url :: "string \<Rightarrow> string + string"
  uuid4 :: "nat \<Rightarrow> string"
  operation :: "string \<Rightarrow> handle list \<Rightarrow> json \<Rightarrow> string + tool_result"
  json_loads :: "string \<Rightarrow> exn + json"
  py_repr :: "json \<Rightarrow> string"
  os_error :: "fs_op \<Rightarrow> string option"

text \<open>
  The state a call can change: the token directory, the calls made so far (oldest
  first), and how many identifiers have been drawn.
\<close>

datatype event =
    Load_tokens string
  | Refresh_call string
  | Build_call string string
  | Fetch_token_call string
  | Userinfo_call
  | Operation_call string

record world =
  tokens_dir :: store
  calls :: "event list"
  drawn :: nat

definition record_call :: "event \<Rightarrow> world \<Rightarrow> world" where
  "record_call ev w = w\<lparr>calls := calls w @ [ev]\<rparr>"

text \<open>\<^verbatim>\<open>_save_tokens\<close> overwrites the account's file, or raises when it cannot be opened.\<close>

definition save_tokens :: "env \<Rightarrow> store \<Rightarrow> string \<Rightarrow> credentials \<Rightarrow> string + store" where
  "save_tokens e dir email creds =
     (case os_error e (Fs_write email) of
        Some msg \<Rightarrow> Inl msg
      | None \<Rightarrow> Inr (AList.update email (Json_text (token_data creds)) dir))"

text \<open>
  \<^verbatim>\<open>_load_tokens\<close>: absent when there is no file, and absent again (the \<^verbatim>\<open>except\<close>
  branch) when the file cannot be read, the text is not JSON, the document is not an
  object, or a true \<^verbatim>\<open>expiry\<close> entry is not a string that \<^verbatim>\<open>fromisoformat\<close> accepts.
\<close>

definition load_tokens :: "env \<Rightarrow> store \<Rightarrow> string \<Rightarrow> credentials option" where
  "load_tokens e dir email =
     (case map_of dir email of
        None \<Rightarrow> None
      | Some content \<Rightarrow>
          (case os_error e (Fs_read email) of
             Some msg \<Rightarrow> None
           | None \<Rightarrow>
               (case content of
                  Other_text \<Rightarrow> None
                | Json_text doc \<Rightarrow>
                    (case doc of
                       JObj td \<Rightarrow>
                         (let creds = \<lparr>token = dict_get td ''token'',
                                       refresh_token = dict_get td ''refresh_token'',
                                       token_uri = dict_get td ''token_uri'',
                                       client_id = dict_get td ''client_id'',
                                       client_secret = dict_get td ''client_secret'',
                                       scopes = dict_get td ''scopes'',
                                       expiry = None\<rparr>
                          in if truthy (dict_get td ''expiry'') then
                               (case dict_get td ''expiry'' of
                                  JStr s \<Rightarrow>
                                    (case fromisoformat s of
                                       None \<Rightarrow> None
                                     | Some t \<Rightarrow> Some (creds\<lparr>expiry := Some t\<rparr>))
                                | _ \<Rightarrow> None)
                             else Some creds)
                     | _ \<Rightarrow> None))))"

section \<open>Auth manager\<close>

text \<open>
  \<^verbatim>\<open>creds.expired\<close>: false without an expiry, otherwise the clock has reached the expiry
  less the library's margin.
\<close>

definition expired :: "env \<Rightarrow> credentials \<Rightarrow> bool" where
  "expired e creds =
     (case expiry creds of
        None \<Rightarrow> False
      | Some t \<Rightarrow> instant t \<le> instant (utcnow e) + skew e)"

definition build :: "env \<Rightarrow> world \<Rightarrow> string \<Rightarrow> string \<Rightarrow> credentials
    \<Rightarrow> (string + handle) \<times> world" where
  "build e w service_name version creds =
     (case build_error e service_name version of
        Some msg \<Rightarrow> (Inl msg, record_call (Build_call service_name version) w)
      | None \<Rightarrow> (Inr (Handle service_name version creds),
                 record_call (Build_call service_name version) w))"

text \<open>
  \<^verbatim>\<open>get_authenticated_client\<close>. Every exception inside becomes \<^verbatim>\<open>None\<close>; the message
  it prints is not modelled.
\<close>

definition get_authenticated_client :: "env \<Rightarrow> world \<Rightarrow> string \<Rightarrow> string \<Rightarrow> string
    \<Rightarrow> handle option \<times> world" where
  "get_authenticated_client e w email service_name version =
     (let w1 = record_call (Load_tokens email) w in
      case load_tokens e (tokens_dir w1) email of
        None \<Rightarrow> (None, w1)
      | Some creds \<Rightarrow>
          if expired e creds \<and> truthy (refresh_token creds) then
            (let w2 = record_call (Refresh_call email) w1 in
             case refresh_grant e creds of
               Inl msg \<Rightarrow> (None, w2)
             | Inr creds' \<Rightarrow>
                 (case save_tokens e (tokens_dir w2) email creds' of
                    Inl msg \<Rightarrow> (None, w2)
                  | Inr dir \<Rightarrow>
                      (case build e (w2\<lparr>tokens_dir := dir\<rparr>) service_name version creds' of
                         (Inl msg, w4) \<Rightarrow> (None, w4)
                       | (Inr h, w4) \<Rightarrow> (Some h, w4))))
          else
            (case build e w1 service_name version creds of
               (Inl msg, w2) \<Rightarrow> (None, w2)
             | (Inr h, w2) \<Rightarrow> (Some h, w2)))"

text \<open>
  \<^verbatim>\<open>get_auth_url\<close> draws a fresh state and has the authorization URL built around it;
  the email hint is not used. The result is the URL with the state, or the error text.
\<close>

datatype auth_url_result = Auth_url string string | Auth_url_failed string

definition get_auth_url :: "env \<Rightarrow> world \<Rightarrow> json \<Rightarrow> auth_url_result \<times> world" where
  "get_auth_url e w email =
     (let state = uuid4 e (drawn w); w1 = w\<lparr>drawn := Suc (drawn w)\<rparr> in
      case authorization_url e state of
        Inl msg \<Rightarrow> (Auth_url_failed msg, w1)
      | Inr auth_url \<Rightarrow> (Auth_url auth_url state, w1))"

text \<open>
  \<^verbatim>\<open>handle_oauth_callback\<close>: exchange the code (\<open>fetch_token\<close> stands for creating the
  flow and the exchange), build the \<^verbatim>\<open>oauth2\<close> client, ask for the user's email, and save
  the tokens under it. Whatever is raised on the way becomes a failure result.
\<close>

datatype callback_result = Callback_ok string | Callback_failed string

definition handle_oauth_callback :: "env \<Rightarrow> world \<Rightarrow> string \<Rightarrow> string
    \<Rightarrow> callback_result \<times> world" where
  "handle_oauth_callback e w code state =
     (let w1 = record_call (Fetch_token_call code) w in
      case fetch_token e code of
        Inl msg \<Rightarrow> (Callback_failed msg, w1)
      | Inr creds \<Rightarrow>
          (case build e w1 ''oauth2'' ''v2'' creds of
             (Inl msg, w2) \<Rightarrow> (Callback_failed msg, w2)
           | (Inr service, w2) \<Rightarrow>
               (let w3 = record_call Userinfo_call w2 in
                case userinfo_email e creds of
                  Inl msg \<Rightarrow> (Callback_failed msg, w3)
                | Inr None \<Rightarrow> (Callback_failed ''Could not retrieve user email'', w3)
                | Inr (Some email) \<Rightarrow>
                    if email = [] then (Callback_failed ''Could not retrieve user email'', w3)
                    else
                      (case save_tokens e (tokens_dir w3) email creds of
                         Inl msg \<Rightarrow> (Callback_failed msg, w3)
                       | Inr dir \<Rightarrow> (Callback_ok email, w3\<lparr>tokens_dir := dir\<rparr>)))))"

text \<open>
  \<^verbatim>\<open>list_accounts\<close> gives the stem of every token file, and nothing when the listing
  fails. \<^verbatim>\<open>remove_account\<close> unlinks the file only if it exists and answers \<open>False\<close> only
  when the unlink raises. \<^verbatim>\<open>is_authenticated\<close> tests that the file exists.
\<close>

definition list_accounts :: "env \<Rightarrow> world \<Rightarrow> string list" where
  "list_accounts e w =
     (case os_error e Fs_glob of
        Some msg \<Rightarrow> []
      | None \<Rightarrow> map fst (tokens_dir w))"

definition remove_account :: "env \<Rightarrow> world \<Rightarrow> string \<Rightarrow> bool \<times> world" where
  "remove_account e w email =
     (if map_of (tokens_dir w) email \<noteq> None then
        (case os_error e (Fs_unlink email) of
           Some msg \<Rightarrow> (False, w)
         | None \<Rightarrow> (True, w\<lparr>tokens_dir := AList.delete email (tokens_dir w)\<rparr>))
      else (True, w))"


section \<open>Capability modules\<close>

text \<open>
  A descriptor, as \<^verbatim>\<open>get_tools\<close> lists it: the operation name, the names of the
  properties of its input schema, and the schema's \<^verbatim>\<open>required\<close> list when it has one.
  The descriptions and the per-property types are left out.
\<close>

record descriptor =
  name :: string
  properties :: "string list"
  required :: "string list option"

datatype module =
    Account_tools
  | Gmail_tools
  | Calendar_tools
  | Drive_tools
  | Contacts_tools
  | Docs_tools
  | Sheets_tools

fun get_tools :: "module \<Rightarrow> descriptor list" where
  "get_tools Account_tools =
     [\<lparr>name = ''list_workspace_accounts'',
        properties = [],
        required = None\<rparr>,
      \<lparr>name = ''authenticate_workspace_account'',
        properties = [''email''],
        required = None\<rparr>,
      \<lparr>name = ''remove_workspace_account'',
        properties = [''email''],
        required = Some [''email'']\<rparr>]"
| "get_tools Gmail_tools =
     [\<lparr>name = ''search_workspace_emails'',
        properties = [''email'', ''query'', ''maxResults'', ''includeSpamTrash''],
        required = Some [''email'']\<rparr>,
      \<lparr>name = ''send_workspace_email'',
        properties = [''email'', ''to'', ''subject'', ''body'', ''cc'', ''bcc''],
        required = Some [''email'', ''to'', ''subject'', ''body'']\<rparr>,
      \<lparr>name = ''manage_workspace_draft'',
        properties = [''email'', ''action'', ''draftId'', ''to'', ''subject'', ''body''],
        required = Some [''email'', ''action'']\<rparr>,
      \<lparr>name = ''manage_workspace_label'',
        properties = [''email'', ''action'', ''labelId'', ''name'', ''labelListVisibility'', ''messageListVisibility''],
        required = Some [''email'', ''action'']\<rparr>,
      \<lparr>name = ''manage_workspace_label_assignment'',
        properties = [''email'', ''messageId'', ''addLabelIds'', ''removeLabelIds''],
        required = Some [''email'', ''messageId'']\<rparr>,
      \<lparr>name = ''get_workspace_gmail_settings'',
        properties = [''email''],
        required = Some [''email'']\<rparr>]"
| "get_tools Calendar_tools =
     [\<lparr>name = ''list_workspace_calendar_events'',
        properties = [''email'', ''calendarId'', ''timeMin'', ''timeMax'', ''maxResults'', ''singleEvents'', ''orderBy'', ''q''],
        required = Some [''email'']\<rparr>,
      \<lparr>name = ''get_workspace_calendar_event'',
        properties = [''email'', ''calendarId'', ''eventId''],
        required = Some [''email'', ''eventId'']\<rparr>,
      \<lparr>name = ''create_workspace_calendar_event'',
        properties = [''email'', ''calendarId'', ''summary'', ''description'', ''start'', ''end'', ''attendees'', ''location'', ''reminders''],
        required = Some [''email'', ''summary'', ''start'', ''end'']\<rparr>,
      \<lparr>name = ''manage_workspace_calendar_event'',
        properties = [''email'', ''calendarId'', ''eventId'', ''action'', ''responseStatus'', ''summary'', ''description'', ''start'', ''end'', ''attendees'', ''location''],
        required = Some [''email'', ''eventId'', ''action'']\<rparr>,
      \<lparr>name = ''delete_workspace_calendar_event'',
        properties = [''email'', ''calendarId'', ''eventId'', ''sendUpdates''],
        required = Some [''email'', ''eventId'']\<rparr>]"
| "get_tools Drive_tools =
     [\<lparr>name = ''list_drive_files'',
        properties = [''email'', ''pageSize'', ''pageToken'', ''q'', ''orderBy'', ''fields''],
        required = Some [''email'']\<rparr>,
      \<lparr>name = ''search_drive_files'',
        properties = [''email'', ''query'', ''pageSize'', ''pageToken''],
        required = Some [''email'', ''query'']\<rparr>,
      \<lparr>name = ''upload_drive_file'',
        properties = [''email'', ''filePath'', ''name'', ''parents'', ''description'', ''mimeType''],
        required = Some [''email'', ''filePath'']\<rparr>,
      \<lparr>name = ''download_drive_file'',
        properties = [''email'', ''fileId'', ''mimeType'', ''localPath''],
        required = Some [''email'', ''fileId'']\<rparr>,
      \<lparr>name = ''delete_drive_file'',
        properties = [''email'', ''fileId''],
        required = Some [''email'', ''fileId'']\<rparr>,
      \<lparr>name = ''create_drive_folder'',
        properties = [''email'', ''name'', ''parents'', ''description''],
        required = Some [''email'', ''name'']\<rparr>,
      \<lparr>name = ''update_drive_permissions'',
        properties = [''email'', ''fileId'', ''action'', ''permissionId'', ''role'', ''type'', ''emailAddress'', ''domain'', ''allowFileDiscovery''],
        required = Some [''email'', ''fileId'', ''action'']\<rparr>]"
| "get_tools Contacts_tools =
     [\<lparr>name = ''get_workspace_contacts'',
        properties = [''email'', ''pageSize'', ''pageToken'', ''query'', ''sortOrder'', ''readMask''],
        required = Some [''email'']\<rparr>]"
| "get_tools Docs_tools =
     [\<lparr>name = ''create_workspace_document'',
        properties = [''email'', ''title'', ''parentFolderId''],
        required = Some [''email'', ''title'']\<rparr>,
      \<lparr>name = ''copy_workspace_document'',
        properties = [''email'', ''documentId'', ''newTitle''],
        required = Some [''email'', ''documentId'', ''newTitle'']\<rparr>,
      \<lparr>name = ''get_workspace_document'',
        properties = [''email'', ''documentId'', ''suggestionsViewMode''],
        required = Some [''email'', ''documentId'']\<rparr>,
      \<lparr>name = ''list_workspace_documents'',
        properties = [''email'', ''pageSize'', ''pageToken'', ''q''],
        required = Some [''email'']\<rparr>,
      \<lparr>name = ''insert_text_into_document'',
        properties = [''email'', ''documentId'', ''text'', ''index'', ''tabId''],
        required = Some [''email'', ''documentId'', ''text'', ''index'']\<rparr>,
      \<lparr>name = ''delete_text_from_document'',
        properties = [''email'', ''documentId'', ''startIndex'', ''endIndex'', ''tabId''],
        required = Some [''email'', ''documentId'', ''startIndex'', ''endIndex'']\<rparr>,
      \<lparr>name = ''batch_update_document'',
        properties = [''email'', ''documentId'', ''requests''],
        required = Some [''email'', ''documentId'', ''requests'']\<rparr>]"
| "get_tools Sheets_tools =
     [\<lparr>name = ''create_workspace_spreadsheet'',
        properties = [''email'', ''title'', ''parentFolderId''],
        required = Some [''email'', ''title'']\<rparr>,
      \<lparr>name = ''get_sheet_values'',
        properties = [''email'', ''spreadsheetId'', ''range'', ''majorDimension'', ''valueRenderOption''],
        required = Some [''email'', ''spreadsheetId'', ''range'']\<rparr>,
      \<lparr>name = ''batch_get_sheet_values'',
        properties = [''email'', ''spreadsheetId'', ''ranges'', ''majorDimension'', ''valueRenderOption''],
        required = Some [''email'', ''spreadsheetId'', ''ranges'']\<rparr>,
      \<lparr>name = ''update_sheet_values'',
        properties = [''email'', ''spreadsheetId'', ''range'', ''values'', ''valueInputOption'', ''majorDimension''],
        required = Some [''email'', ''spreadsheetId'', ''range'', ''values'']\<rparr>,
      \<lparr>name = ''batch_update_sheet_values'',
        properties = [''email'', ''spreadsheetId'', ''data'', ''valueInputOption''],
        required = Some [''email'', ''spreadsheetId'', ''data'']\<rparr>,
      \<lparr>name = ''append_sheet_values'',
        properties = [''email'', ''spreadsheetId'', ''range'', ''values'', ''valueInputOption'', ''insertDataOption''],
        required = Some [''email'', ''spreadsheetId'', ''range'', ''values'']\<rparr>]"

text \<open>The names each module's \<^verbatim>\<open>has_tool\<close> tests for, in the order written there.\<close>

fun tool_names :: "module \<Rightarrow> string list" where
  "tool_names Account_tools =
     [''list_workspace_accounts'',
      ''authenticate_workspace_account'',
      ''remove_workspace_account'']"
| "tool_names Gmail_tools =
     [''search_workspace_emails'',
      ''send_workspace_email'',
      ''manage_workspace_draft'',
      ''manage_workspace_label'',
      ''manage_workspace_label_assignment'',
      ''get_workspace_gmail_settings'']"
| "tool_names Calendar_tools =
     [''list_workspace_calendar_events'',
      ''get_workspace_calendar_event'',
      ''create_workspace_calendar_event'',
      ''manage_workspace_calendar_event'',
      ''delete_workspace_calendar_event'']"
| "tool_names Drive_tools =
     [''list_drive_files'',
      ''search_drive_files'',
      ''upload_drive_file'',
      ''download_drive_file'',
      ''delete_drive_file'',
      ''create_drive_folder'',
      ''update_drive_permissions'']"
| "tool_names Contacts_tools =
     [''get_workspace_contacts'']"
| "tool_names Docs_tools =
     [''create_workspace_document'',
      ''copy_workspace_document'',
      ''get_workspace_document'',
      ''list_workspace_documents'',
      ''insert_text_into_document'',
      ''delete_text_from_document'',
      ''batch_update_document'']"
| "tool_names Sheets_tools =
     [''create_workspace_spreadsheet'',
      ''get_sheet_values'',
      ''batch_get_sheet_values'',
      ''update_sheet_values'',
      ''batch_update_sheet_values'',
      ''append_sheet_values'']"

definition has_tool :: "module \<Rightarrow> json \<Rightarrow> bool" where
  "has_tool m nm = (case nm of JStr s \<Rightarrow> s \<in> set (tool_names m) | _ \<Rightarrow> False)"

text \<open>The API surfaces a module asks the auth manager for, in the order it asks.\<close>

fun surfaces :: "module \<Rightarrow> (string \<times> string) list" where
  "surfaces Account_tools = []"
| "surfaces Gmail_tools = [(''gmail'', ''v1'')]"
| "surfaces Calendar_tools = [(''calendar'', ''v3'')]"
| "surfaces Drive_tools = [(''drive'', ''v3'')]"
| "surfaces Contacts_tools = [(''people'', ''v1'')]"
| "surfaces Docs_tools = [(''docs'', ''v1''), (''drive'', ''v3'')]"
| "surfaces Sheets_tools = [(''sheets'', ''v4''), (''drive'', ''v3'')]"

text \<open>\<^verbatim>\<open>str(v)\<close>, as an f-string formats a value; containers go through \<^verbatim>\<open>repr\<close>.\<close>

definition py_str :: "env \<Rightarrow> json \<Rightarrow> string" where
  "py_str e v =
     (case v of
        JStr s \<Rightarrow> s
      | JNull \<Rightarrow> ''None''
      | JBool b \<Rightarrow> (if b then ''True'' else ''False'')
      | JNum n \<Rightarrow> (if n < 0 then ''-'' @ decimal (nat (- n)) else decimal (nat n))
      | _ \<Rightarrow> py_repr e v)"

fun get_clients :: "env \<Rightarrow> world \<Rightarrow> string \<Rightarrow> (string \<times> string) list
    \<Rightarrow> handle option list \<times> world" where
  "get_clients e w email [] = ([], w)"
| "get_clients e w email ((service_name, version) # rest) =
     (case get_authenticated_client e w email service_name version of
        (h, w1) \<Rightarrow> (case get_clients e w1 email rest of (hs, w2) \<Rightarrow> (h # hs, w2)))"

text \<open>
  \<^verbatim>\<open>handle_tool\<close> of the six service modules, which differ in their surfaces and their
  operation names only. An \<^verbatim>\<open>args\<close> that is not a dictionary raises before the
  \<^verbatim>\<open>try\<close>. The private method behind each name is the \<open>operation\<close> of the environment;
  what it raises is caught here and turned into an error text.
\<close>

definition service_handle_tool :: "env \<Rightarrow> world \<Rightarrow> module \<Rightarrow> json \<Rightarrow> json
    \<Rightarrow> (exn + tool_result) \<times> world" where
  "service_handle_tool e w m nm args =
     (case py_get args ''email'' of
        Inl ex \<Rightarrow> (Inl ex, w)
      | Inr email \<Rightarrow>
          if \<not> truthy email then (Inr (Content ''Error: Email is required''), w)
          else
            (case get_clients e w (py_str e email) (surfaces m) of
               (hs, w1) \<Rightarrow>
                 if list_ex (\<lambda>h. h = None) hs
                 then (Inr (Content ''Error: Account not authenticated''), w1)
                 else if has_tool m nm then
                   (let w2 = record_call (Operation_call (py_str e nm)) w1 in
                    case operation e (py_str e nm) (List.map_filter (\<lambda>h. h) hs) args of
                      Inl msg \<Rightarrow> (Inr (Content (''Error: '' @ msg)), w2)
                    | Inr r \<Rightarrow> (Inr r, w2))
                 else (Inr (Content (''Error: Unknown tool: '' @ py_str e nm)), w1)))"

text \<open>The three private methods of the account module.\<close>

definition account_entry :: "string \<Rightarrow> json" where
  "account_entry email = JObj [(''email'', JStr email), (''authenticated'', JBool True)]"

definition list_accounts_tool :: "env \<Rightarrow> world \<Rightarrow> tool_result \<times> world" where
  "list_accounts_tool e w =
     (Content (py_repr e (JArr (map account_entry (list_accounts e w)))), w)"

definition authenticate_account :: "env \<Rightarrow> world \<Rightarrow> json \<Rightarrow> tool_result \<times> world" where
  "authenticate_account e w args =
     (case py_get args ''email'' of
        Inl ex \<Rightarrow> (Content (''Error: '' @ str_exn ex), w)
      | Inr email \<Rightarrow>
          (case get_auth_url e w email of
             (Auth_url_failed msg, w1) \<Rightarrow>
               (Content (''Failed to generate auth URL: '' @ msg), w1)
           | (Auth_url auth_url state, w1) \<Rightarrow>
               (Content (''Please visit this URL to authenticate:'' @ [CHR 0x0A, CHR 0x0A]
                  @ auth_url @ [CHR 0x0A, CHR 0x0A] @ ''After clicking '' @ [CHR 0x27]
                  @ ''Allow'' @ [CHR 0x27] @ '' on the Google authorization page, ''
                  @ ''the authentication will complete automatically.''), w1)))"

definition remove_account_tool :: "env \<Rightarrow> world \<Rightarrow> json \<Rightarrow> tool_result \<times> world" where
  "remove_account_tool e w args =
     (case py_get args ''email'' of
        Inl ex \<Rightarrow> (Content (''Error: '' @ str_exn ex), w)
      | Inr email \<Rightarrow>
          if \<not> truthy email then (Content ''Error: email is required'', w)
          else
            (case remove_account e w (py_str e email) of
               (True, w1) \<Rightarrow>
                 (Content (''Successfully removed account: '' @ py_str e email), w1)
             | (False, w1) \<Rightarrow>
                 (Content (''Failed to remove account: '' @ py_str e email), w1)))"

definition account_handle_tool :: "env \<Rightarrow> world \<Rightarrow> json \<Rightarrow> json
    \<Rightarrow> (exn + tool_result) \<times> world" where
  "account_handle_tool e w nm args =
     (if nm = JStr ''list_workspace_accounts'' then
        (case list_accounts_tool e w of (r, w1) \<Rightarrow> (Inr r, w1))
      else if nm = JStr ''authenticate_workspace_account'' then
        (case authenticate_account e w args of (r, w1) \<Rightarrow> (Inr r, w1))
      else if nm = JStr ''remove_workspace_account'' then
        (case remove_account_tool e w args of (r, w1) \<Rightarrow> (Inr r, w1))
      else (Inl (ValueError (''Unknown tool: '' @ py_str e nm)), w))"

definition handle_tool :: "env \<Rightarrow> world \<Rightarrow> module \<Rightarrow> json \<Rightarrow> json
    \<Rightarrow> (exn + tool_result) \<times> world" where
  "handle_tool e w m nm args =
     (if m = Account_tools then account_handle_tool e w nm args
      else service_handle_tool e w m nm args)"

section \<open>MCP server\<close>

datatype payload =
    Initialize_payload
  | Tools_payload "descriptor list"
  | Tool_payload tool_result

text \<open>A response envelope: the echoed id with a result, or with an error code and message.\<close>

datatype response =
    Result_response json payload
  | Error_response json int string

definition get_all_tools :: "descriptor list" where
  "get_all_tools =
     get_tools Account_tools @ get_tools Gmail_tools @ get_tools Calendar_tools
     @ get_tools Drive_tools @ get_tools Contacts_tools @ get_tools Docs_tools
     @ get_tools Sheets_tools"

definition handle_list_tools :: "(string \<times> json) list \<Rightarrow> response" where
  "handle_list_tools request = Result_response (dict_get request ''id'') (Tools_payload get_all_tools)"

definition handle_initialize :: "(string \<times> json) list \<Rightarrow> response" where
  "handle_initialize request = Result_response (dict_get request ''id'') Initialize_payload"

text \<open>
  The \<^verbatim>\<open>if\<close>/\<^verbatim>\<open>elif\<close> chain of \<^verbatim>\<open>_handle_call_tool\<close>: the first module, in the order
  written, whose \<^verbatim>\<open>has_tool\<close> accepts the name; with none, \<^verbatim>\<open>ValueError\<close> is raised.
\<close>

definition route_order :: "module list" where
  "route_order = [Account_tools, Gmail_tools, Calendar_tools, Drive_tools, Contacts_tools,
     Docs_tools, Sheets_tools]"

definition route_tool :: "env \<Rightarrow> world \<Rightarrow> json \<Rightarrow> json \<Rightarrow> (exn + tool_result) \<times> world" where
  "route_tool e w tool_name arguments =
     (case find (\<lambda>m. has_tool m tool_name) route_order of
        Some m \<Rightarrow> handle_tool e w m tool_name arguments
      | None \<Rightarrow> (Inl (ValueError (''Unknown tool: '' @ py_str e tool_name)), w))"

text \<open>
  \<^verbatim>\<open>_handle_call_tool\<close>. Reading \<^verbatim>\<open>params\<close> happens before the \<^verbatim>\<open>try\<close>, so a
  \<^verbatim>\<open>params\<close> that is not a dictionary raises out of the function; every exception of the
  routing itself becomes an error response with code \<open>-32603\<close>.
\<close>

definition handle_call_tool :: "env \<Rightarrow> world \<Rightarrow> (string \<times> json) list
    \<Rightarrow> (exn + response) \<times> world" where
  "handle_call_tool e w request =
     (let params = dict_get_default request ''params'' (JObj []) in
      case py_get params ''name'' of
        Inl ex \<Rightarrow> (Inl ex, w)
      | Inr tool_name \<Rightarrow>
          (case py_get_default params ''arguments'' (JObj []) of
             Inl ex \<Rightarrow> (Inl ex, w)
           | Inr arguments \<Rightarrow>
               (case route_tool e w tool_name arguments of
                  (Inr result, w1) \<Rightarrow>
                    (Inr (Result_response (dict_get request ''id'') (Tool_payload result)), w1)
                | (Inl ex, w1) \<Rightarrow>
                    (Inr (Error_response (dict_get request ''id'') (- 32603) (str_exn ex)), w1))))"

definition handle_request :: "env \<Rightarrow> world \<Rightarrow> json \<Rightarrow> (exn + response option) \<times> world" where
  "handle_request e w message =
     (case py_get message ''method'' of
        Inl ex \<Rightarrow> (Inl ex, w)
      | Inr method \<Rightarrow>
          (let request = (case message of JObj d \<Rightarrow> d | _ \<Rightarrow> []) in
           if method = JStr ''initialize'' then (Inr (Some (handle_initialize request)), w)
           else if method = JStr ''tools/list'' then (Inr (Some (handle_list_tools request)), w)
           else if method = JStr ''tools/call'' then
             (case handle_call_tool e w request of
                (Inl ex, w1) \<Rightarrow> (Inl ex, w1)
              | (Inr r, w1) \<Rightarrow> (Inr (Some r), w1))
           else if method = JStr ''notifications/initialized'' then (Inr None, w)
           else (Inr (Some (Error_response (dict_get request ''id'') (- 32601)
                   (''Method not found: '' @ py_str e method))), w)))"





section \<open>Sample data\<close>

text \<open>
  An account whose access token expired at 10:30 while the clock reads 11:00, a token
  endpoint that grants a token good until 12:00, and collaborators that answer.
\<close>

definition sample_expiry :: datetime where
  "sample_expiry = \<lparr>year = 2024, month = 2, day = 29, hour = 10, minute = 30, second = 0,
     microsecond = 0\<rparr>"

definition sample_now :: datetime where
  "sample_now = \<lparr>year = 2024, month = 2, day = 29, hour = 11, minute = 0, second = 0,
     microsecond = 0\<rparr>"

definition sample_renewed :: datetime where
  "sample_renewed = \<lparr>year = 2024, month = 2, day = 29, hour = 12, minute = 0, second = 0,
     microsecond = 250000\<rparr>"

definition sample_creds :: credentials where
  "sample_creds =
     \<lparr>token = JStr ''ya29.old'',
      refresh_token = JStr ''1//refresh'',
      token_uri = JStr ''https://oauth2.googleapis.com/token'',
      client_id = JStr ''client-id'',
      client_secret = JStr ''client-secret'',
      scopes = JArr [JStr ''openid'', JStr ''https://www.googleapis.com/auth/drive''],
      expiry = Some sample_expiry\<rparr>"

definition sample_env :: env where
  "sample_env =
     \<lparr>utcnow = sample_now,
      skew = 10000000,
      refresh_grant = (\<lambda>c. Inr (c\<lparr>token := JStr ''ya29.new'', expiry := Some sample_renewed\<rparr>)),
      build_error = (\<lambda>service_name version. None),
      fetch_token = (\<lambda>code. if code = ''4/code'' then Inr sample_creds else Inl ''invalid_grant''),
      userinfo_email = (\<lambda>c. Inr (Some ''a@x.com'')),
      authorization_url = (\<lambda>state. Inr (''https://accounts.google.com/o/oauth2/auth?state='' @ state)),
      uuid4 = (\<lambda>n. ''uuid-'' @ decimal n),
      operation = (\<lambda>nm hs args. Inr (Content ''{}'')),
      json_loads = (\<lambda>s. if s = ''{}'' then Inr (JObj [])
                          else Inl (JSONDecodeError ''Expecting value: line 1 column 1 (char 0)'')),
      py_repr = (\<lambda>v. if v = JArr [] then ''[]'' else ''...''),
      os_error = (\<lambda>op. None)\<rparr>"

definition empty_world :: world where
  "empty_world = \<lparr>tokens_dir = [], calls = [], drawn = 0\<rparr>"

definition sample_world :: world where
  "sample_world =
     \<lparr>tokens_dir = [(''a@x.com'', Json_text (token_data sample_creds))], calls = [], drawn = 0\<rparr>"

text \<open>The same account with no refresh token in its file.\<close>

definition access_only_creds :: credentials where
  "access_only_creds = sample_creds\<lparr>refresh_token := JNull\<rparr>"

definition access_only_world :: world where
  "access_only_world =
     \<lparr>tokens_dir = [(''a@x.com'', Json_text (token_data access_only_creds))], calls = [],
      drawn = 0\<rparr>"

text \<open>Two \<^verbatim>\<open>tools/call\<close> requests: a name no module has, and a mail search whose
  \<^verbatim>\<open>arguments\<close> is \<^verbatim>\<open>null\<close>.\<close>

definition unknown_tool_request :: "(string \<times> json) list" where
  "unknown_tool_request =
     [(''jsonrpc'', JStr ''2.0''), (''id'', JNum 7), (''method'', JStr ''tools/call''),
      (''params'', JObj [(''name'', JStr ''no_such_tool''), (''arguments'', JObj [])])]"

definition null_arguments_request :: "(string \<times> json) list" where
  "null_arguments_request =
     [(''jsonrpc'', JStr ''2.0''), (''id'', JNum 8), (''method'', JStr ''tools/call''),
      (''params'', JObj [(''name'', JStr ''search_workspace_emails''), (''arguments'', JNull)])]"

section \<open>Digits and timestamps\<close>

definition digits_value :: "string \<Rightarrow> nat" where
  "digits_value s = foldl (\<lambda>a c. 10 * a + digit_val c) 0 s"

lemma digit_char_props:
  assumes "d < 10"
  shows "is_digit (digit_char d)" and "digit_val (digit_char d) = d"
  using assms by (simp_all add: is_digit_def digit_val_def digit_char_def)

lemma decimal_nonempty: "decimal n \<noteq> []"
  by (subst decimal.simps) simp

lemma decimal_all_digits: "list_all is_digit (decimal n)"
proof (induction n rule: decimal.induct)
  case (1 n)
  show ?case
  proof (cases "n < 10")
    case True
    then show ?thesis by (subst decimal.simps) (simp add: digit_char_props)
  next
    case False
    with 1 show ?thesis by (subst decimal.simps) (simp add: digit_char_props)
  qed
qed

lemma decimal_value: "digits_value (decimal n) = n"
proof (induction n rule: decimal.induct)
  case (1 n)
  show ?case
  proof (cases "n < 10")
    case True
    then show ?thesis
      by (subst decimal.simps) (simp add: digits_value_def digit_char_props)
  next
    case False
    with 1 have "digits_value (decimal (n div 10)) = n div 10" by simp
    with False show ?thesis
      by (subst decimal.simps) (simp add: digits_value_def digit_char_props)
  qed
qed

lemma decimal_length: "0 < k \<Longrightarrow> n < 10 ^ k \<Longrightarrow> length (decimal n) \<le> k"
proof (induction n arbitrary: k rule: decimal.induct)
  case (1 n)
  show ?case
  proof (cases "n < 10")
    case True
    with 1(2) show ?thesis by (subst decimal.simps) simp
  next
    case False
    obtain j where k: "k = Suc j" using 1(2) by (cases k) auto
    from False 1(3) k have "0 < j" by (cases j) auto
    moreover from 1(3) k have "n div 10 < 10 ^ j"
      by (simp add: less_mult_imp_div_less mult.commute)
    ultimately have "length (decimal (n div 10)) \<le> j" using 1(1) False by simp
    with False k show ?thesis by (subst decimal.simps) simp
  qed
qed

lemma digits_value_zeros: "digits_value (replicate m (CHR ''0'') @ s) = digits_value s"
  by (induction m) (simp_all add: digits_value_def digit_val_def)

lemma zero_pad_length: "0 < k \<Longrightarrow> n < 10 ^ k \<Longrightarrow> length (zero_pad k n) = k"
  using decimal_length [of k n] by (simp add: zero_pad_def)

lemma zero_pad_parse: "parse_digits (zero_pad k n) = Some n"
proof -
  have "is_digit (CHR ''0'')" by (simp add: is_digit_def)
  then have "list_all is_digit (zero_pad k n)"
    using decimal_all_digits [of n] by (auto simp: zero_pad_def list_all_iff)
  moreover have "zero_pad k n \<noteq> []" by (simp add: zero_pad_def decimal_nonempty)
  moreover have "digits_value (zero_pad k n) = n"
    by (simp add: zero_pad_def digits_value_zeros decimal_value)
  ultimately show ?thesis by (simp add: parse_digits_def digits_value_def)
qed

lemma fromisoformat_isoformat:
  assumes "valid_datetime d"
  shows "fromisoformat (isoformat d) = Some d"
proof -
  from assms have
    ly: "length (zero_pad 4 (year d)) = 4" and lm: "length (zero_pad 2 (month d)) = 2" and
    ld: "length (zero_pad 2 (day d)) = 2" and lh: "length (zero_pad 2 (hour d)) = 2" and
    li: "length (zero_pad 2 (minute d)) = 2" and ls: "length (zero_pad 2 (second d)) = 2" and
    lu: "length (zero_pad 6 (microsecond d)) = 6"
    by (simp_all add: valid_datetime_def zero_pad_length days_in_month_def split: if_splits)
  have surj: "\<lparr>year = year d, month = month d, day = day d, hour = hour d,
      minute = minute d, second = second d, microsecond = microsecond d\<rparr> = d"
    by simp
  show ?thesis
  proof (cases "microsecond d = 0")
    case True
    with surj have e0: "\<lparr>year = year d, month = month d, day = day d, hour = hour d,
      minute = minute d, second = second d, microsecond = 0\<rparr> = d"
      by simp
    from assms show ?thesis
      by (simp add: True e0 Let_def fromisoformat_def isoformat_def parse_isoformat_date_def
          parse_hh_mm_ss_ff_def two_digits_def parse_fraction_def slice_def
          ly lm ld lh li ls lu zero_pad_parse)
  next
    case False
    from assms show ?thesis
      by (simp add: False surj Let_def fromisoformat_def isoformat_def parse_isoformat_date_def
          parse_hh_mm_ss_ff_def two_digits_def parse_fraction_def slice_def
          ly lm ld lh li ls lu zero_pad_parse)
  qed
qed

lemma isoformat_nonempty: "isoformat d \<noteq> []"
  by (simp add: isoformat_def zero_pad_def decimal_nonempty)

section \<open>The credential file\<close>

lemma dict_get_token_data:
  "dict_get [(''token'', a), (''refresh_token'', b), (''token_uri'', c), (''client_id'', d),
     (''client_secret'', f), (''scopes'', g), (''expiry'', h)] k =
   (if k = ''token'' then a else if k = ''refresh_token'' then b
    else if k = ''token_uri'' then c else if k = ''client_id'' then d
    else if k = ''client_secret'' then f else if k = ''scopes'' then g
    else if k = ''expiry'' then h else JNull)"
  by (simp add: dict_get_def)

lemma load_tokens_of_token_data:
  assumes "map_of dir email = Some (Json_text (token_data creds))"
    and "os_error e (Fs_read email) = None"
    and "case expiry creds of None \<Rightarrow> True | Some t \<Rightarrow> valid_datetime t"
  shows "load_tokens e dir email = Some creds"
proof (cases "expiry creds")
  case None
  then have "\<lparr>token = token creds, refresh_token = refresh_token creds,
      token_uri = token_uri creds, client_id = client_id creds,
      client_secret = client_secret creds, scopes = scopes creds, expiry = None\<rparr> = creds"
    by (cases creds) simp
  with None assms(1,2) show ?thesis
    by (simp add: load_tokens_def token_data_def dict_get_token_data)
next
  case (Some t)
  with assms(3) have "fromisoformat (isoformat t) = Some t"
    by (simp add: fromisoformat_isoformat)
  moreover from Some have "\<lparr>token = token creds, refresh_token = refresh_token creds,
      token_uri = token_uri creds, client_id = client_id creds,
      client_secret = client_secret creds, scopes = scopes creds, expiry = Some t\<rparr> = creds"
    by (cases creds) simp
  ultimately show ?thesis using Some assms(1,2)
    by (simp add: load_tokens_def token_data_def dict_get_token_data isoformat_nonempty)
qed

lemma load_tokens_save_tokens:
  assumes "save_tokens e dir email creds = Inr dir'"
    and "os_error e (Fs_read email) = None"
    and "case expiry creds of None \<Rightarrow> True | Some t \<Rightarrow> valid_datetime t"
  shows "load_tokens e dir' email = Some creds"
proof (rule load_tokens_of_token_data [OF _ assms(2,3)])
  from assms(1) show "map_of dir' email = Some (Json_text (token_data creds))"
    by (auto simp: save_tokens_def update_conv' split: option.splits)
qed


lemma past_expiry_expired:
  "expiry creds = Some t \<Longrightarrow> instant t < instant (utcnow e) \<Longrightarrow> expired e creds"
  by (simp add: expired_def)

lemma sample_expiry_valid: "valid_datetime sample_expiry"
  by (simp add: valid_datetime_def sample_expiry_def days_in_month_def is_leap_def)


lemma sample_expiry_past: "instant sample_expiry < instant (utcnow sample_env)"
  by (simp add: sample_env_def instant_def toordinal_def sample_expiry_def sample_now_def
      days_before_year_def days_before_month_def is_leap_def)



lemma access_only_world_load:
  "load_tokens sample_env (tokens_dir access_only_world) ''a@x.com'' = Some access_only_creds"
  by (rule load_tokens_of_token_data)
     (simp_all add: access_only_world_def access_only_creds_def sample_creds_def
        sample_expiry_valid sample_env_def)

section \<open>Credential store\<close>

text \<open>
  C4. When the account's file can be written and read, a credential record whose
  expiry, if it has one, is a timestamp the library can hold is read back by
  \<open>load_tokens\<close> exactly as \<open>save_tokens\<close> wrote it: the record loaded equals the record
  saved in every field, and the two expiries are the same instant.
\<close>

theorem save_load_round_trip:
  assumes "os_error e (Fs_write email) = None" and "os_error e (Fs_read email) = None"
    and "case expiry creds of None \<Rightarrow> True | Some t \<Rightarrow> valid_datetime t"
  shows "\<exists>dir' loaded. save_tokens e dir email creds = Inr dir'
           \<and> load_tokens e dir' email = Some loaded
           \<and> loaded = creds
           \<and> map_option instant (expiry loaded) = map_option instant (expiry creds)"
proof -
  from assms(1) obtain dir' where s: "save_tokens e dir email creds = Inr dir'"
    by (simp add: save_tokens_def)
  from load_tokens_save_tokens [OF s assms(2,3)] s show ?thesis by simp
qed

theorem save_load_round_trip_witness:
  "(\<exists>dir'. save_tokens sample_env (tokens_dir sample_world) ''b@x.com'' sample_creds = Inr dir'
      \<and> load_tokens sample_env dir' ''b@x.com'' = Some sample_creds)
   \<and> (\<exists>dir'. save_tokens sample_env [] ''a@x.com''
          (sample_creds\<lparr>refresh_token := JNull, expiry := None\<rparr>) = Inr dir'
      \<and> load_tokens sample_env dir' ''a@x.com''
          = Some (sample_creds\<lparr>refresh_token := JNull, expiry := None\<rparr>))"
proof -
  have wr: "os_error sample_env (Fs_write email) = None" for email
    by (simp add: sample_env_def)
  have rd: "os_error sample_env (Fs_read email) = None" for email
    by (simp add: sample_env_def)
  have v1: "case expiry sample_creds of None \<Rightarrow> True | Some t \<Rightarrow> valid_datetime t"
    by (simp add: sample_creds_def sample_expiry_valid)
  have v2: "case expiry (sample_creds\<lparr>refresh_token := JNull, expiry := None\<rparr>) of
      None \<Rightarrow> True | Some t \<Rightarrow> valid_datetime t"
    by simp
  from save_load_round_trip [OF wr rd v1, where email = "''b@x.com''"
        and dir = "tokens_dir sample_world"]
    save_load_round_trip [OF wr rd v2, where email = "''a@x.com''" and dir = "[]"]
  show ?thesis by blast
qed



section \<open>Authorization callback\<close>

text \<open>
  C9. \<open>handle_oauth_callback\<close> does not read its \<open>state\<close> argument: with the same
  authorization code, two calls that differ in the state alone return the same result
  and leave the same token directory and the same calls behind.
\<close>

theorem callback_ignores_state:
  "handle_oauth_callback e w code state1 = handle_oauth_callback e w code state2"
  by (simp add: handle_oauth_callback_def)

theorem callback_ignores_state_witness:
  "handle_oauth_callback sample_env empty_world ''4/code'' ''expected-state''
     = handle_oauth_callback sample_env empty_world ''4/code'' ''forged-state''
   \<and> fst (handle_oauth_callback sample_env empty_world ''4/code'' ''forged-state'')
     = Callback_ok ''a@x.com''"
proof -
  have "fst (handle_oauth_callback sample_env empty_world ''4/code'' ''forged-state'')
     = Callback_ok ''a@x.com''"
    by (simp add: handle_oauth_callback_def sample_env_def build_def record_call_def
        save_tokens_def)
  then show ?thesis
    using callback_ignores_state [of sample_env empty_world "''4/code''" "''expected-state''"
        "''forged-state''"]
    by simp
qed

section \<open>Line protocol\<close>



section \<open>Handles for expired credentials\<close>

text \<open>
  C1. For an account whose stored record has an expiry in the past and no refresh token,
  \<open>get_authenticated_client\<close> makes no refresh call and writes nothing to the token
  directory: after loading the record it calls \<open>build\<close> once and returns the handle built
  from the stored credentials, and returns nothing only when \<open>build\<close> raises.
\<close>

theorem expired_without_refresh_token:
  assumes "load_tokens e (tokens_dir w) email = Some creds"
    and "expiry creds = Some t" and "instant t < instant (utcnow e)"
    and "\<not> truthy (refresh_token creds)"
  shows "get_authenticated_client e w email service_name version =
           ((case build_error e service_name version of
               None \<Rightarrow> Some (Handle service_name version creds)
             | Some msg \<Rightarrow> None),
            w\<lparr>calls := calls w @ [Load_tokens email, Build_call service_name version]\<rparr>)"
  using assms
  by (simp add: get_authenticated_client_def build_def record_call_def split: option.split)

theorem expired_without_refresh_token_witness:
  "get_authenticated_client sample_env access_only_world ''a@x.com'' ''gmail'' ''v1'' =
     (Some (Handle ''gmail'' ''v1'' access_only_creds),
      access_only_world\<lparr>calls := [Load_tokens ''a@x.com'', Build_call ''gmail'' ''v1'']\<rparr>)"
proof -
  have x: "expiry access_only_creds = Some sample_expiry"
    by (simp add: access_only_creds_def sample_creds_def)
  have r: "\<not> truthy (refresh_token access_only_creds)"
    by (simp add: access_only_creds_def)
  have b: "build_error sample_env ''gmail'' ''v1'' = None"
    by (simp add: sample_env_def)
  have c: "calls access_only_world = []"
    by (simp add: access_only_world_def)
  show ?thesis
    using expired_without_refresh_token [OF access_only_world_load x sample_expiry_past r,
        of "''gmail''" "''v1''"]
    by (simp add: b c)
qed

text \<open>
  The sample account without a refresh token, half an hour after its expiry: the call
  returns a handle.
\<close>

theorem expired_without_refresh_token_counterexample:
  "load_tokens sample_env (tokens_dir access_only_world) ''a@x.com'' = Some access_only_creds
   \<and> refresh_token access_only_creds = JNull
   \<and> expiry access_only_creds = Some sample_expiry
   \<and> instant sample_expiry < instant (utcnow sample_env)
   \<and> fst (get_authenticated_client sample_env access_only_world ''a@x.com'' ''gmail'' ''v1'')
       = Some (Handle ''gmail'' ''v1'' access_only_creds)"
proof -
  have "expired sample_env access_only_creds"
    by (rule past_expiry_expired [OF _ sample_expiry_past])
       (simp add: access_only_creds_def sample_creds_def)
  then have "fst (get_authenticated_client sample_env access_only_world ''a@x.com'' ''gmail'' ''v1'')
       = Some (Handle ''gmail'' ''v1'' access_only_creds)"
    using access_only_world_load
    by (simp add: get_authenticated_client_def build_def record_call_def sample_env_def
        access_only_creds_def)
  then show ?thesis
    using access_only_world_load sample_expiry_past
    by (simp add: access_only_creds_def sample_creds_def)
qed



section \<open>Dispatcher\<close>

lemma no_module_has_tool_find:
  "(\<forall>m. \<not> has_tool m nm) \<Longrightarrow> find (\<lambda>m. has_tool m nm) route_order = None"
  by (simp add: find_None_iff)

text \<open>
  C2. A \<^verbatim>\<open>tools/call\<close> request whose \<^verbatim>\<open>params\<close> is an object and whose tool name no
  module has is answered with an error response that echoes the id, carries the message
  \<^verbatim>\<open>Unknown tool: <name>\<close> and the code \<open>-32603\<close>, with no module invoked and the state
  unchanged. The code is not set apart: every exception raised while a module handles a
  call is answered with \<open>-32603\<close> and its message as well.
\<close>

theorem unknown_tool_error:
  assumes "dict_get_default request ''params'' (JObj []) = JObj params"
  shows "((\<forall>m. \<not> has_tool m (dict_get params ''name'')) \<longrightarrow>
            handle_call_tool e w request =
              (Inr (Error_response (dict_get request ''id'') (- 32603)
                 (''Unknown tool: '' @ py_str e (dict_get params ''name''))), w))
         \<and> (\<forall>ex w1. route_tool e w (dict_get params ''name'')
                 (dict_get_default params ''arguments'' (JObj [])) = (Inl ex, w1) \<longrightarrow>
              handle_call_tool e w request =
                (Inr (Error_response (dict_get request ''id'') (- 32603) (str_exn ex)), w1))"
proof -
  let ?nm = "dict_get params ''name''"
  let ?args = "dict_get_default params ''arguments'' (JObj [])"
  have call: "handle_call_tool e w request =
      (case route_tool e w ?nm ?args of
         (Inr result, w1) \<Rightarrow>
           (Inr (Result_response (dict_get request ''id'') (Tool_payload result)), w1)
       | (Inl ex, w1) \<Rightarrow>
           (Inr (Error_response (dict_get request ''id'') (- 32603) (str_exn ex)), w1))"
    using assms by (simp add: handle_call_tool_def py_get_def py_get_default_def)
  have unknown: "route_tool e w ?nm ?args = (Inl (ValueError (''Unknown tool: '' @ py_str e ?nm)), w)"
    if "\<forall>m. \<not> has_tool m ?nm"
    using no_module_has_tool_find [OF that] by (simp add: route_tool_def)
  show ?thesis
    using unknown by (auto simp: call)
qed

theorem unknown_tool_error_witness:
  "handle_call_tool sample_env sample_world unknown_tool_request =
     (Inr (Error_response (JNum 7) (- 32603) ''Unknown tool: no_such_tool''), sample_world)"
proof -
  have p: "dict_get_default unknown_tool_request ''params'' (JObj [])
      = JObj [(''name'', JStr ''no_such_tool''), (''arguments'', JObj [])]"
    by (simp add: unknown_tool_request_def dict_get_default_def)
  have n: "\<forall>m. \<not> has_tool m (dict_get [(''name'', JStr ''no_such_tool''), (''arguments'', JObj [])] ''name'')"
  proof
    fix m show "\<not> has_tool m (dict_get [(''name'', JStr ''no_such_tool''), (''arguments'', JObj [])] ''name'')"
      by (cases m) (simp_all add: has_tool_def dict_get_def)
  qed
  have i: "dict_get unknown_tool_request ''id'' = JNum 7"
    by (simp add: unknown_tool_request_def dict_get_def)
  have k: "dict_get [(''name'', JStr ''no_such_tool''), (''arguments'', JObj [])] ''name''
      = JStr ''no_such_tool''"
    by (simp add: dict_get_def)
  from unknown_tool_error [OF p, of sample_env sample_world] n
  have "handle_call_tool sample_env sample_world unknown_tool_request =
      (Inr (Error_response (dict_get unknown_tool_request ''id'') (- 32603)
         (''Unknown tool: '' @ py_str sample_env
            (dict_get [(''name'', JStr ''no_such_tool''), (''arguments'', JObj [])] ''name''))),
       sample_world)"
    by blast
  then show ?thesis by (simp add: i k py_str_def)
qed

text \<open>
  An unknown name, and a mail search whose null arguments make the mail module raise:
  both are answered with code \<open>-32603\<close>.
\<close>

theorem unknown_tool_error_counterexample:
  "handle_call_tool sample_env sample_world unknown_tool_request =
     (Inr (Error_response (JNum 7) (- 32603) ''Unknown tool: no_such_tool''), sample_world)
   \<and> handle_call_tool sample_env sample_world null_arguments_request =
     (Inr (Error_response (JNum 8) (- 32603)
        ([CHR 0x27] @ ''NoneType'' @ [CHR 0x27] @ '' object has no attribute '' @ [CHR 0x27]
          @ ''get'' @ [CHR 0x27])), sample_world)"
  by (simp add: handle_call_tool_def unknown_tool_request_def null_arguments_request_def
      dict_get_default_def dict_get_def py_get_def py_get_default_def route_tool_def
      route_order_def has_tool_def handle_tool_def service_handle_tool_def py_str_def)

text \<open>
  C5. The \<^verbatim>\<open>tools/list\<close> response carries the descriptor lists of the seven modules,
  concatenated in the order account, mail, calendar, drive, contacts, documents, sheets;
  its length is the sum of the seven lengths, and no two descriptors have the same name.
\<close>

theorem tools_list_catalog:
  "get_all_tools = concat (map get_tools [Account_tools, Gmail_tools, Calendar_tools,
       Drive_tools, Contacts_tools, Docs_tools, Sheets_tools])
   \<and> length get_all_tools = sum_list (map (\<lambda>m. length (get_tools m)) [Account_tools,
       Gmail_tools, Calendar_tools, Drive_tools, Contacts_tools, Docs_tools, Sheets_tools])
   \<and> distinct (map name get_all_tools)
   \<and> handle_list_tools request
       = Result_response (dict_get request ''id'') (Tools_payload get_all_tools)
   \<and> (dict_get request ''method'' = JStr ''tools/list'' \<longrightarrow>
        handle_request e w (JObj request)
          = (Inr (Some (Result_response (dict_get request ''id'') (Tools_payload get_all_tools))), w))"
proof -
  have "distinct (map name get_all_tools)"
    by (simp add: get_all_tools_def)
  moreover have "dict_get request ''method'' = JStr ''tools/list'' \<longrightarrow>
        handle_request e w (JObj request)
          = (Inr (Some (Result_response (dict_get request ''id'') (Tools_payload get_all_tools))), w)"
    by (simp add: handle_request_def py_get_def handle_list_tools_def)
  ultimately show ?thesis
    by (simp add: get_all_tools_def handle_list_tools_def)
qed

theorem tools_list_catalog_witness:
  "handle_request sample_env sample_world
      (JObj [(''jsonrpc'', JStr ''2.0''), (''id'', JNum 1), (''method'', JStr ''tools/list'')])
     = (Inr (Some (Result_response (JNum 1) (Tools_payload get_all_tools))), sample_world)
   \<and> length get_all_tools = 35"
proof -
  have m: "dict_get [(''jsonrpc'', JStr ''2.0''), (''id'', JNum 1), (''method'', JStr ''tools/list'')]
      ''method'' = JStr ''tools/list''"
    by (simp add: dict_get_def)
  have i: "dict_get [(''jsonrpc'', JStr ''2.0''), (''id'', JNum 1), (''method'', JStr ''tools/list'')]
      ''id'' = JNum 1"
    by (simp add: dict_get_def)
  from tools_list_catalog [of "[(''jsonrpc'', JStr ''2.0''), (''id'', JNum 1),
      (''method'', JStr ''tools/list'')]" sample_env sample_world] m i
  show ?thesis by simp
qed

section \<open>Calls without an account\<close>




end
